theory Spec2Isabelle
  imports Complex_Main
begin

section \<open>The Milvus similarity backend (src/milvus.py)\<close>

text \<open>
  A shallow embedding of \<^verbatim>\<open>MilvusSimilarityConfig\<close> and \<^verbatim>\<open>MilvusSimilarityIndex\<close>.
  Python methods whose name starts with an underscore carry the prefix \<open>p_\<close> here
  (\<^verbatim>\<open>_kneighbors\<close> is \<open>p_kneighbors\<close>), since an Isabelle name cannot start with one.
  Vector components are real numbers; the rounding of floating point is not modelled.
\<close>

subsection \<open>Errors\<close>

text \<open>
  Every \<^verbatim>\<open>raise\<close> of the source raises \<^verbatim>\<open>ValueError\<close>; the errors differ in their message.
  A message is kept as its format string (one constructor each) with its arguments:
  \<^item> \<open>UnsupportedMetric m\<close>: "Unsupported metric '%s'. Supported values are %s"
  \<^item> \<open>FoundExisting n i\<close>: "Found %d IDs (eg %s) that already exist in the index"
  \<^item> \<open>NoLabelIdSupport\<close>: "This index does not support label IDs"
  \<^item> \<open>FoundMissing n i\<close>: "Found %d IDs (eg %s) that do not exist in the index"
  \<^item> \<open>NoRetrieveAll\<close>: "Milvus does not support retrieving all vectors in an index"
  \<^item> \<open>NoFullIndexNeighbors\<close>: "Milvus does not support full index neighbors"
  \<^item> \<open>NoLeastSimilarity\<close>: "Milvus does not support least similarity queries"
  \<^item> \<open>RequiresK m\<close>: "Milvus requires k<=%s"
  \<^item> \<open>UnsupportedAggregation a\<close>: "Unsupported aggregation '%s'"

  The other errors are the ones Python, numpy and the Milvus client raise themselves.
\<close>

datatype message =
    UnsupportedMetric string
  | FoundExisting nat string
  | NoLabelIdSupport
  | FoundMissing nat string
  | NoRetrieveAll
  | NoFullIndexNeighbors
  | NoLeastSimilarity
  | RequiresK int
  | UnsupportedAggregation string

datatype error =
    ValueError message
  | KeyError
  | IndexError
  | TypeError
  | MilvusException

subsection \<open>Configuration\<close>

definition SUPPORTED_METRICS :: "(string \<times> string) list" where
  "SUPPORTED_METRICS = [(''dotproduct'', ''IP''), (''euclidean'', ''L2'')]"

text \<open>\<^verbatim>\<open>key in d\<close> and \<^verbatim>\<open>d[key]\<close> for a dict with string keys, at a key that is a string or
  \<^verbatim>\<open>None\<close>: \<^verbatim>\<open>None\<close> is not a key of such a dict, and a missing key raises \<^verbatim>\<open>KeyError\<close>.\<close>

definition dict_mem :: "string option \<Rightarrow> (string \<times> 'v) list \<Rightarrow> bool" where
  "dict_mem k d = (case k of None \<Rightarrow> False | Some s \<Rightarrow> s \<in> set (map fst d))"

definition dict_get :: "(string \<times> 'v) list \<Rightarrow> string option \<Rightarrow> error + 'v" where
  "dict_get d k =
     (case k of
        None \<Rightarrow> Inl KeyError
      | Some s \<Rightarrow> (case map_of d s of None \<Rightarrow> Inl KeyError | Some v \<Rightarrow> Inr v))"

record index_params_t =
  ip_metric_type :: string
  ip_index_type :: string
  ip_M :: nat
  ip_efConstruction :: nat

record search_params_t =
  sp_index_type :: string
  sp_metric_type :: string
  sp_ef :: nat

record config =
  embeddings_field :: "string option"
  model :: "string option"
  patches_field :: "string option"
  supports_prompts :: "bool option"
  metric :: "string option"
  collection_name :: string
  uri :: string
  user :: string
  password :: string
  consistency_level :: string
  index_params :: index_params_t
  search_params :: search_params_t

text \<open>
  \<^verbatim>\<open>MilvusSimilarityConfig.__init__\<close>. The constructor of the base class
  \<^verbatim>\<open>SimilarityConfig\<close> is not part of this repository; it is taken to store the four fields
  it is given. The statements run in the order of the source: the guard on the metric, the
  fields, then the two lookups \<^verbatim>\<open>_SUPPORTED_METRICS[metric]\<close>.
\<close>

definition MilvusSimilarityConfig_init ::
  "string option \<Rightarrow> string option \<Rightarrow> string option \<Rightarrow> bool option \<Rightarrow> string option \<Rightarrow>
   string \<Rightarrow> string \<Rightarrow> string \<Rightarrow> string \<Rightarrow> string \<Rightarrow> error + config" where
  "MilvusSimilarityConfig_init ef mdl pf sprompts m cname u usr pw cl =
     (if m \<noteq> None \<and> \<not> dict_mem m SUPPORTED_METRICS
      then Inl (ValueError (UnsupportedMetric (case m of Some s \<Rightarrow> s | None \<Rightarrow> [])))
      else
        (case dict_get SUPPORTED_METRICS m of
           Inl e \<Rightarrow> Inl e
         | Inr mt1 \<Rightarrow>
             (case dict_get SUPPORTED_METRICS m of
                Inl e \<Rightarrow> Inl e
              | Inr mt2 \<Rightarrow>
                  Inr \<lparr> embeddings_field = ef, model = mdl, patches_field = pf,
                        supports_prompts = sprompts, metric = m, collection_name = cname,
                        uri = u, user = usr, password = pw, consistency_level = cl,
                        index_params =
                          \<lparr> ip_metric_type = mt1, ip_index_type = ''HNSW'',
                            ip_M = 8, ip_efConstruction = 64 \<rparr>,
                        search_params =
                          \<lparr> sp_index_type = ''HNSW'', sp_metric_type = mt2, sp_ef = 10 \<rparr> \<rparr>)))"

definition max_k :: "config \<Rightarrow> int" where
  "max_k c = 16384"

subsection \<open>The remote collection and the calls made on it\<close>

text \<open>
  The Milvus service is outside the repository. What the adapter can observe of it is
  modelled as a state: the collection of the configured name, when it exists, with the
  dimension of its vector field and its rows (primary key, vector, sample id); the list of
  the calls the adapter has issued, in order; and the records written to the logger.
  Every operation returns its result or error together with the state it leaves, so that
  the effects of a call that raises are kept.
\<close>

type_synonym vec = "real list"

record row =
  pk :: string
  vector :: vec
  sample_id :: string

record coll =
  vdim :: nat
  rows :: "row list"

text \<open>A numpy array of numbers with at most two axes.\<close>

datatype ndarray = Arr0 real | Arr1 "real list" | Arr2 "real list list"

text \<open>One element of \<^verbatim>\<open>[e.tolist() for e in embeddings]\<close>: a row of a 2-D array is a list
  of numbers, an element of a 1-D array is a number.\<close>

datatype cell = Scalar real | Row vec

datatype call =
    CreateCollection nat
  | Query "string list" "string list"
  | Delete "string list"
  | Insert "string list" "cell list" "string list"
  | Search vec "string list" int

datatype logrec =
    WarnOverwriting nat
  | WarnSkippingExisting nat
  | WarnIgnoringMissing nat
  | WarnIgnoringSampleIds
  | WarnSkippingMissing nat
  | ErrorGetEmbedding string

record state =
  collection :: "coll option"
  calls :: "call list"
  logged :: "logrec list"

definition issue :: "call \<Rightarrow> state \<Rightarrow> state" where
  "issue c st = st\<lparr>calls := calls st @ [c]\<rparr>"

definition log_record :: "logrec \<Rightarrow> state \<Rightarrow> state" where
  "log_record m st = st\<lparr>logged := logged st @ [m]\<rparr>"

text \<open>Sequencing: an error ends the computation, with the state reached so far.\<close>

definition bindE ::
  "(error + 'a) \<times> state \<Rightarrow> ('a \<Rightarrow> state \<Rightarrow> (error + 'b) \<times> state) \<Rightarrow> (error + 'b) \<times> state" where
  "bindE m f = (case m of (Inl e, st) \<Rightarrow> (Inl e, st) | (Inr v, st) \<Rightarrow> f v st)"

text \<open>
  The ranking of a vector search is the service's own (an approximate nearest-neighbour
  index over floating-point vectors); it is a parameter of the model: given the collection,
  the query vector, the primary keys allowed by the filter and the limit, it returns the
  hits of the first query vector as pairs of id and score, or fails.
\<close>

type_synonym search_fn = "coll \<Rightarrow> vec \<Rightarrow> string list \<Rightarrow> int \<Rightarrow> error + (string \<times> real) list"

text \<open>\<^verbatim>\<open>utility.has_collection(self.config.collection_name, using=self.alias)\<close>\<close>

definition has_collection :: "state \<Rightarrow> bool" where
  "has_collection st = (collection st \<noteq> None)"

text \<open>
  The calls \<^verbatim>\<open>self.get_collection().query/delete/insert/search\<close>. The filter expression
  is always the text \<^verbatim>\<open>pk in ["a","b",...]\<close> built from a list of ids; the calls carry that
  list. Opening a collection that does not exist fails in the client, before the call.
  A query returns the rows whose primary key is listed, a delete removes them. An insert
  of three columns appends one row per position; the service does not look for a stored row
  of the same primary key (which is why the adapter deletes before it inserts when it
  overwrites). Columns of different lengths, or a vector cell that is not a list of
  \<open>vdim\<close> numbers, are rejected.
\<close>

definition remote_query :: "string list \<Rightarrow> string list \<Rightarrow> state \<Rightarrow> (error + row list) \<times> state" where
  "remote_query ids out_fields st =
     (case collection st of
        None \<Rightarrow> (Inl MilvusException, st)
      | Some c \<Rightarrow> (Inr (filter (\<lambda>r. pk r \<in> set ids) (rows c)), issue (Query ids out_fields) st))"

definition remote_delete :: "string list \<Rightarrow> state \<Rightarrow> (error + unit) \<times> state" where
  "remote_delete ids st =
     (case collection st of
        None \<Rightarrow> (Inl MilvusException, st)
      | Some c \<Rightarrow>
          (Inr (),
           issue (Delete ids)
             (st\<lparr>collection := Some (c\<lparr>rows := filter (\<lambda>r. pk r \<notin> set ids) (rows c)\<rparr>)\<rparr>)))"

definition is_vector_cell :: "nat \<Rightarrow> cell \<Rightarrow> bool" where
  "is_vector_cell d x = (case x of Row v \<Rightarrow> length v = d | Scalar y \<Rightarrow> False)"

definition insert_ok :: "coll \<Rightarrow> string list \<Rightarrow> cell list \<Rightarrow> string list \<Rightarrow> bool" where
  "insert_ok c pks cells sids =
     (length cells = length pks \<and> length sids = length pks \<and> list_all (is_vector_cell (vdim c)) cells)"

definition new_row :: "string \<times> cell \<times> string \<Rightarrow> row" where
  "new_row t =
     (case t of (p, x, s) \<Rightarrow>
        \<lparr> pk = p, vector = (case x of Row v \<Rightarrow> v | Scalar y \<Rightarrow> [y]), sample_id = s \<rparr>)"

definition remote_insert ::
  "string list \<Rightarrow> cell list \<Rightarrow> string list \<Rightarrow> state \<Rightarrow> (error + unit) \<times> state" where
  "remote_insert pks cells sids st =
     (case collection st of
        None \<Rightarrow> (Inl MilvusException, st)
      | Some c \<Rightarrow>
          (if insert_ok c pks cells sids
           then (Inr (),
                 issue (Insert pks cells sids)
                   (st\<lparr>collection :=
                        Some (c\<lparr>rows := rows c @ map new_row (zip pks (zip cells sids))\<rparr>)\<rparr>))
           else (Inl MilvusException, issue (Insert pks cells sids) st)))"

definition remote_search ::
  "search_fn \<Rightarrow> vec \<Rightarrow> string list \<Rightarrow> int \<Rightarrow> state \<Rightarrow> (error + (string \<times> real) list) \<times> state" where
  "remote_search srch q ids limit st =
     (case collection st of
        None \<Rightarrow> (Inl MilvusException, st)
      | Some c \<Rightarrow> (srch c q ids limit, issue (Search q ids limit) st))"

text \<open>\<^verbatim>\<open>fiftyone.core.utils.iter_batches\<close> (a library function): the consecutive chunks of at
  most \<open>n\<close> elements; none when \<open>n\<close> is 0.\<close>

function iter_batches :: "'a list \<Rightarrow> nat \<Rightarrow> 'a list list" where
  "iter_batches xs n = (if n = 0 \<or> xs = [] then [] else take n xs # iter_batches (drop n xs) n)"
  by pat_completeness auto
termination
  by (relation "measure (\<lambda>(xs, n). length xs)") auto

declare iter_batches.simps [simp del]

subsection \<open>The index: creation, existing ids, deletion\<close>

text \<open>The adapter instance: its configuration and the ids the host application regards as
  live (\<^verbatim>\<open>current_sample_ids\<close>, \<^verbatim>\<open>current_label_ids\<close>, properties of the base class).\<close>

record index =
  idx_config :: config
  current_sample_ids :: "string list"
  current_label_ids :: "string list"

text \<open>\<^verbatim>\<open>_create_collection(dimension)\<close>: the source calls it only when no collection of the
  name exists.\<close>

definition p_create_collection :: "nat \<Rightarrow> state \<Rightarrow> (error + unit) \<times> state" where
  "p_create_collection dimension st =
     (case collection st of
        Some c \<Rightarrow> (Inl MilvusException, st)
      | None \<Rightarrow>
          (Inr (), issue (CreateCollection dimension)
                     (st\<lparr>collection := Some \<lparr> vdim = dimension, rows = [] \<rparr>\<rparr>)))"

text \<open>\<^verbatim>\<open>embeddings.shape[1]\<close> of a 2-D array given by its rows.\<close>

definition shape1 :: "real list list \<Rightarrow> nat" where
  "shape1 embeddings = (case embeddings of [] \<Rightarrow> 0 | r # rs \<Rightarrow> length r)"

text \<open>
  Modelled from the spec: \<^verbatim>\<open>get_existing_ids\<close> is called by \<^verbatim>\<open>add_to_index\<close> and
  \<^verbatim>\<open>remove_from_index\<close> and is not defined in src/ (the class defines only
  \<^verbatim>\<open>_get_existing_ids\<close>, which returns the rows of the query). The spec: "query remote for
  which of the effective IDs already exist". The result is the collection of those ids,
  each once.
\<close>

definition get_existing_ids :: "string list \<Rightarrow> state \<Rightarrow> (error + string list) \<times> state" where
  "get_existing_ids ids st =
     bindE (remote_query ids [] st)
       (\<lambda>found st'. (Inr (remdups (filter (\<lambda>i. i \<in> set (map pk found)) ids)), st'))"

text \<open>\<^verbatim>\<open>_delete_ids(ids)\<close>\<close>

definition p_delete_ids :: "string list \<Rightarrow> state \<Rightarrow> (error + unit) \<times> state" where
  "p_delete_ids ids st = remote_delete ids st"

text \<open>\<^verbatim>\<open>_get_embeddings(ids)\<close>: writes an error-level log record, then queries the three
  fields of the listed primary keys.\<close>

definition p_get_embeddings :: "index \<Rightarrow> string list \<Rightarrow> state \<Rightarrow> (error + row list) \<times> state" where
  "p_get_embeddings self ids st =
     remote_query ids [''pk'', ''sample_id'', ''vector'']
       (log_record (ErrorGetEmbedding (collection_name (idx_config self))) st)"

subsection \<open>\<^verbatim>\<open>add_to_index\<close>\<close>

text \<open>\<^verbatim>\<open>[i for i, _id in enumerate(ids) if _id in existing_ids]\<close>\<close>

definition del_inds_of :: "string list \<Rightarrow> string list \<Rightarrow> nat list" where
  "del_inds_of ids existing_ids = filter (\<lambda>i. ids ! i \<in> set existing_ids) [0..<length ids]"

text \<open>\<^verbatim>\<open>np.delete(arr, obj)\<close> with no \<^verbatim>\<open>axis\<close>, on the elements of the flattened array: an
  index out of range raises \<^verbatim>\<open>IndexError\<close>.\<close>

definition np_delete :: "'a list \<Rightarrow> nat list \<Rightarrow> error + 'a list" where
  "np_delete xs inds =
     (if list_ex (\<lambda>i. length xs \<le> i) inds then Inl IndexError
      else Inr (map (\<lambda>j. xs ! j) (filter (\<lambda>j. j \<notin> set inds) [0..<length xs])))"

text \<open>\<^verbatim>\<open>[e.tolist() for e in embeddings]\<close>\<close>

definition tolist_each :: "ndarray \<Rightarrow> error + cell list" where
  "tolist_each a =
     (case a of Arr2 rs \<Rightarrow> Inr (map Row rs) | Arr1 xs \<Rightarrow> Inr (map Scalar xs) | Arr0 x \<Rightarrow> Inl TypeError)"

text \<open>The loop over the zipped batches: one insert per batch; an error ends the loop.\<close>

fun insert_batches ::
  "(cell list \<times> string list \<times> string list) list \<Rightarrow> state \<Rightarrow> (error + unit) \<times> state" where
  "insert_batches [] st = (Inr (), st)"
| "insert_batches (b # bs) st =
     (case b of (b_embeddings, b_ids, b_sample_ids) \<Rightarrow>
        (case remote_insert b_ids b_embeddings b_sample_ids st of
           (Inl e, st') \<Rightarrow> (Inl e, st')
         | (Inr u, st') \<Rightarrow> insert_batches bs st'))"

text \<open>
  \<^verbatim>\<open>add_to_index(embeddings, sample_ids, label_ids, overwrite, allow_existing,
  warn_existing, batch_size)\<close>; the defaults of the source are \<^verbatim>\<open>label_ids=None\<close>,
  \<^verbatim>\<open>overwrite=True\<close>, \<^verbatim>\<open>allow_existing=True\<close>, \<^verbatim>\<open>warn_existing=False\<close>,
  \<^verbatim>\<open>batch_size=100\<close>. The name \<^verbatim>\<open>ids\<close> is bound before the reconciliation and is not
  bound again after it (\<^verbatim>\<open>ids = list(ids)\<close>).
\<close>

definition add_to_index ::
  "real list list \<Rightarrow> string list \<Rightarrow> string list option \<Rightarrow> bool \<Rightarrow> bool \<Rightarrow> bool \<Rightarrow> nat \<Rightarrow>
   state \<Rightarrow> (error + unit) \<times> state" where
  "add_to_index embeddings sample_ids label_ids overwrite allow_existing warn_existing batch_size st =
     bindE (if has_collection st then (Inr (), st)
            else p_create_collection (shape1 embeddings) st)
       (\<lambda>u st1.
          let ids = (case label_ids of Some l \<Rightarrow> l | None \<Rightarrow> sample_ids) in
          bindE
            (if warn_existing \<or> (\<not> allow_existing \<or> \<not> overwrite)
             then bindE (get_existing_ids ids st1)
                    (\<lambda>existing_ids st2.
                       let num_existing = length existing_ids in
                       if 0 < num_existing
                       then (if \<not> allow_existing
                             then (Inl (ValueError (FoundExisting num_existing (hd existing_ids))), st2)
                             else if warn_existing
                             then (Inr existing_ids,
                                   log_record (if overwrite then WarnOverwriting num_existing
                                               else WarnSkippingExisting num_existing) st2)
                             else (Inr existing_ids, st2))
                       else (Inr existing_ids, st2))
             else (Inr [], st1))
            (\<lambda>existing_ids st3.
               bindE
                 (if existing_ids \<noteq> [] \<and> \<not> overwrite
                  then (let del_inds = del_inds_of ids existing_ids in
                        case np_delete (concat embeddings) del_inds of
                          Inl e \<Rightarrow> (Inl e, st3)
                        | Inr embeddings1 \<Rightarrow>
                            (case np_delete sample_ids del_inds of
                               Inl e \<Rightarrow> (Inl e, st3)
                             | Inr sample_ids1 \<Rightarrow>
                                 (case label_ids of
                                    None \<Rightarrow> (Inr (Arr1 embeddings1, sample_ids1), st3)
                                  | Some l \<Rightarrow>
                                      (case np_delete l del_inds of
                                         Inl e \<Rightarrow> (Inl e, st3)
                                       | Inr label_ids1 \<Rightarrow>
                                           (Inr (Arr1 embeddings1, sample_ids1), st3)))))
                  else if existing_ids \<noteq> [] \<and> overwrite
                  then bindE (p_delete_ids existing_ids st3)
                         (\<lambda>u st4. (Inr (Arr2 embeddings, sample_ids), st4))
                  else (Inr (Arr2 embeddings, sample_ids), st3))
                 (\<lambda>r st5.
                    case r of (embeddings2, sample_ids2) \<Rightarrow>
                      (case tolist_each embeddings2 of
                         Inl e \<Rightarrow> (Inl e, st5)
                       | Inr embeddings3 \<Rightarrow>
                           insert_batches
                             (zip (iter_batches embeddings3 batch_size)
                                (zip (iter_batches ids batch_size)
                                   (iter_batches sample_ids2 batch_size)))
                             st5))))"

subsection \<open>\<^verbatim>\<open>remove_from_index\<close>\<close>

text \<open>
  \<^verbatim>\<open>remove_from_index(sample_ids, label_ids, allow_missing, warn_missing)\<close>, defaults
  \<^verbatim>\<open>None\<close>, \<^verbatim>\<open>None\<close>, \<^verbatim>\<open>True\<close>, \<^verbatim>\<open>False\<close>. With neither list given \<^verbatim>\<open>ids\<close> is \<^verbatim>\<open>None\<close>, and
  the first statement that iterates it raises \<^verbatim>\<open>TypeError\<close> before any call is issued.
  The source computes \<^verbatim>\<open>missing_ids = set(existing_ids) - set(ids)\<close>; in the \<^verbatim>\<open>raise\<close>
  statement the argument \<^verbatim>\<open>missing_ids[0]\<close> subscripts a set, which raises \<^verbatim>\<open>TypeError\<close>
  before the \<^verbatim>\<open>ValueError\<close> is built.
\<close>

definition remove_from_index ::
  "string list option \<Rightarrow> string list option \<Rightarrow> bool \<Rightarrow> bool \<Rightarrow> state \<Rightarrow> (error + unit) \<times> state" where
  "remove_from_index sample_ids label_ids allow_missing warn_missing st =
     (case (case label_ids of Some l \<Rightarrow> Some l | None \<Rightarrow> sample_ids) of
        None \<Rightarrow> (Inl TypeError, st)
      | Some ids \<Rightarrow>
          bindE
            (if \<not> allow_missing \<or> warn_missing
             then bindE (get_existing_ids ids st)
                    (\<lambda>existing_ids st1.
                       let missing_ids = remdups (filter (\<lambda>i. i \<notin> set ids) existing_ids);
                           num_missing = length missing_ids in
                       if 0 < num_missing
                       then (if \<not> allow_missing then (Inl TypeError, st1)
                             else if warn_missing
                             then (Inr (), log_record (WarnIgnoringMissing num_missing) st1)
                             else (Inr (), st1))
                       else (Inr (), st1))
             else (Inr (), st))
            (\<lambda>u st2. p_delete_ids ids st2))"

subsection \<open>\<^verbatim>\<open>get_embeddings\<close>\<close>

text \<open>What the three retrieval helpers return: the embeddings, sample ids and label ids
  found, and the requested ids that were not found.\<close>

type_synonym found = "vec list \<times> string list \<times> string list option \<times> string list"

text \<open>\<^verbatim>\<open>list(set(requested) - set(found))\<close>\<close>

definition set_minus :: "string list \<Rightarrow> string list \<Rightarrow> string list" where
  "set_minus requested found_ids = remdups (filter (\<lambda>i. i \<notin> set found_ids) requested)"

text \<open>The loop of \<^verbatim>\<open>_get_sample_embeddings\<close> over the batches.\<close>

fun sample_batches ::
  "index \<Rightarrow> string list list \<Rightarrow> vec list \<times> string list \<Rightarrow> state \<Rightarrow>
   (error + vec list \<times> string list) \<times> state" where
  "sample_batches self [] acc st = (Inr acc, st)"
| "sample_batches self (batch_ids # bs) acc st =
     (case p_get_embeddings self batch_ids st of
        (Inl e, st') \<Rightarrow> (Inl e, st')
      | (Inr response, st') \<Rightarrow>
          sample_batches self bs
            (fst acc @ map vector response, snd acc @ map sample_id response) st')"

text \<open>\<^verbatim>\<open>_get_sample_embeddings(sample_ids, batch_size=1000)\<close>\<close>

definition p_get_sample_embeddings ::
  "index \<Rightarrow> string list option \<Rightarrow> nat \<Rightarrow> state \<Rightarrow> (error + found) \<times> state" where
  "p_get_sample_embeddings self sample_ids batch_size st =
     (case sample_ids of
        None \<Rightarrow> (Inl (ValueError NoRetrieveAll), st)
      | Some sids \<Rightarrow>
          bindE (sample_batches self (iter_batches sids batch_size) ([], []) st)
            (\<lambda>acc st'. (Inr (fst acc, snd acc, None, set_minus sids (snd acc)), st')))"

text \<open>
  Modelled from the spec: \<^verbatim>\<open>get_dim\<close> is called by
  \<^verbatim>\<open>_get_patch_embeddings_from_sample_ids\<close> and is not defined in src/. The spec: the probe
  is "a zero vector search", and the dimension of the collection's vector field is "fixed
  at creation"; it returns that dimension.
\<close>

definition get_dim :: "state \<Rightarrow> (error + nat) \<times> state" where
  "get_dim st =
     (case collection st of None \<Rightarrow> (Inl MilvusException, st) | Some c \<Rightarrow> (Inr (vdim c), st))"

text \<open>The loop of \<^verbatim>\<open>_get_patch_embeddings_from_sample_ids\<close> over the batches: a search
  with the zero vector, filtered by \<^verbatim>\<open>pk in [batch]\<close>, then the records of the hits.\<close>

fun patch_batches ::
  "search_fn \<Rightarrow> index \<Rightarrow> vec \<Rightarrow> int \<Rightarrow> string list list \<Rightarrow>
   vec list \<times> string list \<times> string list \<Rightarrow> state \<Rightarrow>
   (error + vec list \<times> string list \<times> string list) \<times> state" where
  "patch_batches srch self query_vector top_k [] acc st = (Inr acc, st)"
| "patch_batches srch self query_vector top_k (batch_ids # bs) acc st =
     (case remote_search srch query_vector batch_ids top_k st of
        (Inl e, st1) \<Rightarrow> (Inl e, st1)
      | (Inr hits, st1) \<Rightarrow>
          (case p_get_embeddings self (map fst hits) st1 of
             (Inl e, st2) \<Rightarrow> (Inl e, st2)
           | (Inr response, st2) \<Rightarrow>
               patch_batches srch self query_vector top_k bs
                 (fst acc @ map vector response,
                  fst (snd acc) @ map sample_id response,
                  snd (snd acc) @ map pk response) st2))"

text \<open>\<^verbatim>\<open>_get_patch_embeddings_from_sample_ids(sample_ids, batch_size=100)\<close>; iterating
  \<^verbatim>\<open>None\<close> raises \<^verbatim>\<open>TypeError\<close>.\<close>

definition p_get_patch_embeddings_from_sample_ids ::
  "search_fn \<Rightarrow> index \<Rightarrow> string list option \<Rightarrow> nat \<Rightarrow> state \<Rightarrow> (error + found) \<times> state" where
  "p_get_patch_embeddings_from_sample_ids srch self sample_ids batch_size st =
     bindE (get_dim st)
       (\<lambda>d st0.
          let query_vector = replicate d 0;
              top_k = min (int batch_size) (max_k (idx_config self)) in
          case sample_ids of
            None \<Rightarrow> (Inl TypeError, st0)
          | Some sids \<Rightarrow>
              bindE (patch_batches srch self query_vector top_k (iter_batches sids batch_size)
                       ([], [], []) st0)
                (\<lambda>acc st'.
                   (Inr (fst acc, fst (snd acc), Some (snd (snd acc)),
                         set_minus sids (fst (snd acc))), st')))"

text \<open>
  \<^verbatim>\<open>get_embeddings(sample_ids, label_ids, allow_missing, warn_missing)\<close>, defaults \<^verbatim>\<open>None\<close>,
  \<^verbatim>\<open>None\<close>, \<^verbatim>\<open>True\<close>, \<^verbatim>\<open>False\<close>, and \<^verbatim>\<open>_get_patch_embeddings_from_label_ids(label_ids,
  batch_size=1000)\<close>, which the former calls and which calls the former back: its loop has
  \<^verbatim>\<open>response = self.get_embeddings(list(batch_ids))\<close>, the public method with the batch as
  \<^verbatim>\<open>sample_ids\<close> and every other argument at its default. That call returns a tuple of three
  numpy arrays, and the first step of \<^verbatim>\<open>for r in response\<close> evaluates \<^verbatim>\<open>r["vector"]\<close> on the
  first of them: subscripting an array of numbers with a string raises \<^verbatim>\<open>IndexError\<close>. So
  the first batch ends the loop, with the error of the call or with that \<^verbatim>\<open>IndexError\<close>.
\<close>

function
  get_embeddings ::
    "search_fn \<Rightarrow> index \<Rightarrow> string list option \<Rightarrow> string list option \<Rightarrow> bool \<Rightarrow> bool \<Rightarrow>
     state \<Rightarrow> (error + vec list \<times> string list \<times> string list option) \<times> state"
and
  p_get_patch_embeddings_from_label_ids ::
    "search_fn \<Rightarrow> index \<Rightarrow> string list option \<Rightarrow> nat \<Rightarrow> state \<Rightarrow> (error + found) \<times> state"
where
  "get_embeddings srch self sample_ids label_ids allow_missing warn_missing st =
     (if label_ids \<noteq> None \<and> patches_field (idx_config self) = None
      then (Inl (ValueError NoLabelIdSupport), st)
      else
        (let st0 = (if label_ids \<noteq> None \<and> sample_ids \<noteq> None
                    then log_record WarnIgnoringSampleIds st else st) in
         case
           (if sample_ids \<noteq> None \<and> patches_field (idx_config self) \<noteq> None
            then p_get_patch_embeddings_from_sample_ids srch self sample_ids 100 st0
            else if patches_field (idx_config self) \<noteq> None
            then p_get_patch_embeddings_from_label_ids srch self label_ids 1000 st0
            else p_get_sample_embeddings self sample_ids 1000 st0)
         of
           (Inl e, st1) \<Rightarrow> (Inl e, st1)
         | (Inr r, st1) \<Rightarrow>
             (case r of (embeddings, found_sample_ids, found_label_ids, missing_ids) \<Rightarrow>
                (let num_missing_ids = length missing_ids in
                 if 0 < num_missing_ids \<and> \<not> allow_missing
                 then (Inl (ValueError (FoundMissing num_missing_ids (hd missing_ids))), st1)
                 else if 0 < num_missing_ids \<and> warn_missing
                 then (Inr (embeddings, found_sample_ids, found_label_ids),
                       log_record (WarnSkippingMissing num_missing_ids) st1)
                 else (Inr (embeddings, found_sample_ids, found_label_ids), st1)))))"
| "p_get_patch_embeddings_from_label_ids srch self label_ids batch_size st =
     (case label_ids of
        None \<Rightarrow> (Inl (ValueError NoRetrieveAll), st)
      | Some lids \<Rightarrow>
          (case iter_batches lids batch_size of
             [] \<Rightarrow> (Inr ([], [], Some [], set_minus lids []), st)
           | batch_ids # bs \<Rightarrow>
               (case get_embeddings srch self (Some batch_ids) None True False st of
                  (Inl e, st') \<Rightarrow> (Inl e, st')
                | (Inr response, st') \<Rightarrow> (Inl IndexError, st'))))"
  by pat_completeness auto
termination
  by (relation "measure (\<lambda>x. case x of
         Inl (srch, self, sample_ids, rest) \<Rightarrow> (if sample_ids = None then 2 else 0)
       | Inr y \<Rightarrow> 1)") auto

declare get_embeddings.simps [simp del]
declare p_get_patch_embeddings_from_label_ids.simps [simp del]

subsection \<open>\<^verbatim>\<open>_kneighbors\<close>\<close>

text \<open>A query: one id (a string), an array of numbers, or a list of ids.\<close>

datatype query = QStr string | QNum ndarray | QIds "string list"

definition ndim :: "ndarray \<Rightarrow> nat" where
  "ndim a = (case a of Arr0 x \<Rightarrow> 0 | Arr1 v \<Rightarrow> 1 | Arr2 b \<Rightarrow> 2)"

text \<open>\<^verbatim>\<open>np.array([x["vector"] for x in response])\<close>: the array of an empty list has one axis,
  of length 0; the vectors of a collection all have its dimension.\<close>

definition np_array :: "vec list \<Rightarrow> ndarray" where
  "np_array vs = (if vs = [] then Arr1 [] else Arr2 vs)"

text \<open>\<^verbatim>\<open>query[0, :]\<close>: an array with fewer than two axes has too many indices, a 2-D array
  with no row has no index 0; both raise \<^verbatim>\<open>IndexError\<close>.\<close>

definition first_row :: "ndarray \<Rightarrow> error + ndarray" where
  "first_row a = (case a of Arr2 (r # rs) \<Rightarrow> Inr (Arr1 r) | _ \<Rightarrow> Inl IndexError)"

text \<open>\<^verbatim>\<open>query.mean(axis=0)\<close> of a 2-D array given by its rows, all of the same length.\<close>

definition mean_axis0 :: "real list list \<Rightarrow> real list" where
  "mean_axis0 b =
     map (\<lambda>j. sum_list (map (\<lambda>r. r ! j) b) / of_nat (length b)) [0..<shape1 b]"

text \<open>\<^verbatim>\<open>_parse_neighbors_query(query)\<close>\<close>

definition p_parse_neighbors_query :: "index \<Rightarrow> query \<Rightarrow> state \<Rightarrow> (error + ndarray) \<times> state" where
  "p_parse_neighbors_query self query st =
     (case query of
        QNum a \<Rightarrow> (Inr a, st)
      | QStr s \<Rightarrow>
          bindE (p_get_embeddings self [s] st)
            (\<lambda>response st'. (first_row (np_array (map vector response)), st'))
      | QIds l \<Rightarrow>
          bindE (p_get_embeddings self l st)
            (\<lambda>response st'. (Inr (np_array (map vector response)), st')))"

text \<open>The query vectors the loop \<^verbatim>\<open>for q in query\<close> visits, as \<^verbatim>\<open>q.tolist()\<close>: the one vector
  when \<^verbatim>\<open>single_query\<close> (the query was wrapped in a list), the rows of a 2-D array;
  iterating an array with no axis raises \<^verbatim>\<open>TypeError\<close>.\<close>

definition query_vectors :: "ndarray \<Rightarrow> error + vec list" where
  "query_vectors a = (case a of Arr1 v \<Rightarrow> Inr [v] | Arr2 b \<Rightarrow> Inr b | Arr0 x \<Rightarrow> Inl TypeError)"

text \<open>The search loop: one search per query vector, with the ids and (when asked for) the
  scores of its hits appended.\<close>

fun search_loop ::
  "search_fn \<Rightarrow> string list \<Rightarrow> int \<Rightarrow> bool \<Rightarrow> vec list \<Rightarrow> string list list \<times> real list list \<Rightarrow>
   state \<Rightarrow> (error + string list list \<times> real list list) \<times> state" where
  "search_loop srch index_ids k return_dists [] acc st = (Inr acc, st)"
| "search_loop srch index_ids k return_dists (q # qs) acc st =
     (case remote_search srch q index_ids k st of
        (Inl e, st') \<Rightarrow> (Inl e, st')
      | (Inr response, st') \<Rightarrow>
          search_loop srch index_ids k return_dists qs
            (fst acc @ [map fst response],
             (if return_dists then snd acc @ [map snd response] else snd acc)) st')"

text \<open>The value returned: flat lists for a single query, one list per query vector
  otherwise; with the distances when \<^verbatim>\<open>return_dists\<close>.\<close>

datatype 'a nested = Flat "'a list" | PerQuery "'a list list"

datatype neighbors = Ids "string nested" | IdsDists "string nested" "real nested"

text \<open>\<^verbatim>\<open>xs[0]\<close>\<close>

definition item0 :: "'a list \<Rightarrow> error + 'a" where
  "item0 xs = (case xs of [] \<Rightarrow> Inl IndexError | x # r \<Rightarrow> Inr x)"

definition finish_neighbors ::
  "bool \<Rightarrow> bool \<Rightarrow> string list list \<times> real list list \<Rightarrow> error + neighbors" where
  "finish_neighbors single_query return_dists acc =
     (if single_query
      then (case item0 (fst acc) of
              Inl e \<Rightarrow> Inl e
            | Inr ids0 \<Rightarrow>
                (if return_dists
                 then (case item0 (snd acc) of
                         Inl e \<Rightarrow> Inl e
                       | Inr dists0 \<Rightarrow> Inr (IdsDists (Flat ids0) (Flat dists0)))
                 else Inr (Ids (Flat ids0))))
      else (if return_dists then Inr (IdsDists (PerQuery (fst acc)) (PerQuery (snd acc)))
            else Inr (Ids (PerQuery (fst acc)))))"

text \<open>\<^verbatim>\<open>_kneighbors(query, k, reverse, aggregation, return_dists)\<close>, defaults \<^verbatim>\<open>None\<close>,
  \<^verbatim>\<open>None\<close>, \<^verbatim>\<open>False\<close>, \<^verbatim>\<open>None\<close>, \<^verbatim>\<open>False\<close>.\<close>

definition p_kneighbors ::
  "search_fn \<Rightarrow> index \<Rightarrow> query option \<Rightarrow> int option \<Rightarrow> bool \<Rightarrow> string option \<Rightarrow> bool \<Rightarrow>
   state \<Rightarrow> (error + neighbors) \<times> state" where
  "p_kneighbors srch self query k reverse aggregation return_dists st =
     (case query of
        None \<Rightarrow> (Inl (ValueError NoFullIndexNeighbors), st)
      | Some qry \<Rightarrow>
          (if reverse then (Inl (ValueError NoLeastSimilarity), st)
           else
             (case k of
                None \<Rightarrow> (Inl (ValueError (RequiresK (max_k (idx_config self)))), st)
              | Some kk \<Rightarrow>
                  (if max_k (idx_config self) < kk
                   then (Inl (ValueError (RequiresK (max_k (idx_config self)))), st)
                   else
                     (if aggregation \<noteq> None \<and> aggregation \<noteq> Some ''mean''
                      then (Inl (ValueError (UnsupportedAggregation
                                   (case aggregation of Some a \<Rightarrow> a | None \<Rightarrow> []))), st)
                      else
                          bindE (p_parse_neighbors_query self qry st)
                            (\<lambda>query1 st1.
                               let query2 =
                                     (case query1 of
                                        Arr2 b \<Rightarrow>
                                          (if aggregation = Some ''mean''
                                           then Arr1 (mean_axis0 b) else query1)
                                      | _ \<Rightarrow> query1);
                                   single_query = (ndim query2 = 1);
                                   index_ids =
                                     (if patches_field (idx_config self) \<noteq> None
                                      then current_label_ids self
                                      else current_sample_ids self) in
                               (case query_vectors query2 of
                                  Inl e \<Rightarrow> (Inl e, st1)
                                | Inr qs \<Rightarrow>
                                    bindE (search_loop srch index_ids kk return_dists qs ([], []) st1)
                                      (\<lambda>acc st2.
                                         (finish_neighbors single_query return_dists acc, st2)))))))))"

subsection \<open>Example values\<close>

text \<open>
  Concrete values at which the properties below are evaluated: a search that returns the
  stored rows allowed by the filter, in the order of storage and up to the limit, each
  with score 0; an index without and one with a patches field; a collection of dimension 2
  holding the one row \<open>x\<close>, and one holding the patch \<open>p1\<close> of the sample \<open>s1\<close>; a predicate
  that recognises the search calls in the list of calls.
\<close>

definition example_search :: search_fn where
  "example_search c q ids k =
     Inr (map (\<lambda>r. (pk r, 0)) (take (nat k) (filter (\<lambda>r. pk r \<in> set ids) (rows c))))"

definition example_config :: "string option \<Rightarrow> config" where
  "example_config pf =
     \<lparr> embeddings_field = None, model = None, patches_field = pf, supports_prompts = None,
       metric = Some ''euclidean'', collection_name = ''ClientCollection'',
       uri = ''http://localhost:19530'', user = [], password = [],
       consistency_level = ''Session'',
       index_params = \<lparr> ip_metric_type = ''L2'', ip_index_type = ''HNSW'',
                        ip_M = 8, ip_efConstruction = 64 \<rparr>,
       search_params = \<lparr> sp_index_type = ''HNSW'', sp_metric_type = ''L2'', sp_ef = 10 \<rparr> \<rparr>"

definition sample_index :: index where
  "sample_index =
     \<lparr> idx_config = example_config None, current_sample_ids = [''x''],
       current_label_ids = [] \<rparr>"

definition patch_index :: index where
  "patch_index =
     \<lparr> idx_config = example_config (Some ''ground_truth''), current_sample_ids = [''s1''],
       current_label_ids = [''p1''] \<rparr>"

definition store_x :: state where
  "store_x =
     \<lparr> collection = Some \<lparr> vdim = 2, rows = [\<lparr> pk = ''x'', vector = [1, 0], sample_id = ''x'' \<rparr>] \<rparr>,
       calls = [], logged = [] \<rparr>"

definition store_p :: state where
  "store_p =
     \<lparr> collection = Some \<lparr> vdim = 2, rows = [\<lparr> pk = ''p1'', vector = [1, 0], sample_id = ''s1'' \<rparr>] \<rparr>,
       calls = [], logged = [] \<rparr>"

definition is_search :: "call \<Rightarrow> bool" where
  "is_search c = (case c of Search q ids k \<Rightarrow> True | _ \<Rightarrow> False)"

definition is_delete :: "call \<Rightarrow> bool" where
  "is_delete c = (case c of Delete ids \<Rightarrow> True | _ \<Rightarrow> False)"

definition is_insert :: "call \<Rightarrow> bool" where
  "is_insert c = (case c of Insert pks cells sids \<Rightarrow> True | _ \<Rightarrow> False)"

section \<open>Properties\<close>

subsection \<open>Configuration\<close>

lemma config_init_unsupported:
  "s \<notin> set (map fst SUPPORTED_METRICS) \<Longrightarrow>
   MilvusSimilarityConfig_init ef mdl pf sprompts (Some s) cname u usr pw cl
     = Inl (ValueError (UnsupportedMetric s))"
  by (simp add: MilvusSimilarityConfig_init_def dict_mem_def)

text \<open>
  Claim C9. Constructing the configuration with \<^verbatim>\<open>metric=None\<close> passes the guard on the
  metric (which only rejects a metric that is not \<^verbatim>\<open>None\<close> and not a supported name) and
  fails with \<^verbatim>\<open>KeyError\<close> at the lookup \<^verbatim>\<open>_SUPPORTED_METRICS[metric]\<close> for the index
  parameters: not the \<^verbatim>\<open>ValueError\<close> that an unsupported metric string gets.
\<close>

theorem config_metric_None_KeyError:
  "MilvusSimilarityConfig_init ef mdl pf sprompts None cname u usr pw cl = Inl KeyError
   \<and> MilvusSimilarityConfig_init ef mdl pf sprompts None cname u usr pw cl
       \<noteq> Inl (ValueError (UnsupportedMetric s))
   \<and> MilvusSimilarityConfig_init ef mdl pf sprompts (Some ''cosine'') cname u usr pw cl
       = Inl (ValueError (UnsupportedMetric ''cosine''))"
  by (simp add: MilvusSimilarityConfig_init_def dict_mem_def dict_get_def SUPPORTED_METRICS_def)

subsection \<open>Sequencing\<close>

lemma bindE_Inl: "bindE (Inl e, st) f = (Inl e, st)"
  by (simp add: bindE_def)

lemma bindE_Inr: "bindE (Inr v, st) f = f v st"
  by (simp add: bindE_def)

subsection \<open>Validation of the arguments of \<^verbatim>\<open>_kneighbors\<close>\<close>

text \<open>
  Claim C6. \<^verbatim>\<open>_kneighbors\<close> fails with the \<^verbatim>\<open>ValueError\<close> of an invalid argument whenever
  the query is \<^verbatim>\<open>None\<close>, or \<^verbatim>\<open>reverse\<close> is true, or \<open>k\<close> is \<^verbatim>\<open>None\<close>, or \<open>k\<close> exceeds 16384,
  or the aggregation is neither \<^verbatim>\<open>None\<close> nor \<^verbatim>\<open>"mean"\<close>, whatever the query holds; and the
  state is the one the call started in, so no call (and no search) has been issued when
  the error is raised.
\<close>

theorem kneighbors_invalid_argument:
  assumes "query = None \<or> reverse \<or> k = None \<or> (\<exists>kk. k = Some kk \<and> 16384 < kk)
           \<or> (aggregation \<noteq> None \<and> aggregation \<noteq> Some ''mean'')"
  shows "\<exists>m. p_kneighbors srch self query k reverse aggregation return_dists st
               = (Inl (ValueError m), st)"
  using assms
  by (auto simp: p_kneighbors_def max_k_def split: option.splits)

theorem kneighbors_invalid_argument_witness:
  "(\<exists>kk. Some (16385::int) = Some kk \<and> 16384 < kk)
   \<and> (\<exists>m. p_kneighbors example_search sample_index (Some (QNum (Arr1 [1, 0]))) (Some 16385)
              False None False store_x = (Inl (ValueError m), store_x))"
  using kneighbors_invalid_argument
          [of "Some (QNum (Arr1 [1, 0]))" False "Some 16385" None example_search sample_index
              False store_x]
  by simp

subsection \<open>A query by an id that is not in the index\<close>

lemma filter_pk_absent:
  "s \<notin> pk ` set rs \<Longrightarrow> filter (\<lambda>r. pk r = s) rs = []"
  by (induction rs) auto

text \<open>
  Claim C10. A query by one string id that is not a primary key of the collection does not
  end in a \<^verbatim>\<open>ValueError\<close> for a missing id: \<^verbatim>\<open>_get_embeddings\<close> returns no row, the array
  built from the empty list has one axis, and \<^verbatim>\<open>query[0, :]\<close> raises \<^verbatim>\<open>IndexError\<close>. The only
  call issued is the query for the record; no search is issued.
\<close>

theorem kneighbors_unknown_id_IndexError:
  assumes "collection st = Some c" and "s \<notin> pk ` set (rows c)" and "kk \<le> 16384"
    and "aggregation = None \<or> aggregation = Some ''mean''"
  shows "p_kneighbors srch self (Some (QStr s)) (Some kk) False aggregation return_dists st
           = (Inl IndexError,
              issue (Query [s] [''pk'', ''sample_id'', ''vector''])
                (log_record (ErrorGetEmbedding (collection_name (idx_config self))) st))
         \<and> filter is_search
              (calls (snd (p_kneighbors srch self (Some (QStr s)) (Some kk) False aggregation
                             return_dists st)))
             = filter is_search (calls st)"
  using assms
  by (auto simp: p_kneighbors_def max_k_def p_parse_neighbors_query_def p_get_embeddings_def
        remote_query_def log_record_def issue_def np_array_def first_row_def bindE_Inl bindE_Inr
        filter_pk_absent is_search_def)

theorem kneighbors_unknown_id_IndexError_witness:
  "collection store_x = Some \<lparr> vdim = 2, rows = [\<lparr> pk = ''x'', vector = [1, 0], sample_id = ''x'' \<rparr>] \<rparr>
   \<and> ''nope'' \<notin> pk ` set (rows \<lparr> vdim = 2, rows = [\<lparr> pk = ''x'', vector = [1, 0], sample_id = ''x'' \<rparr>] \<rparr>)
   \<and> (3::int) \<le> 16384
   \<and> p_kneighbors example_search sample_index (Some (QStr ''nope'')) (Some 3) False None False store_x
       = (Inl IndexError,
          issue (Query [''nope''] [''pk'', ''sample_id'', ''vector''])
            (log_record (ErrorGetEmbedding (collection_name (idx_config sample_index))) store_x))"
  using kneighbors_unknown_id_IndexError
          [where st = store_x and s = "''nope''" and kk = 3 and aggregation = None
             and srch = example_search and self = sample_index and return_dists = False
             and c = "\<lparr> vdim = 2, rows = [\<lparr> pk = ''x'', vector = [1, 0], sample_id = ''x'' \<rparr>] \<rparr>"]
  by (simp add: store_x_def)

subsection \<open>Mean aggregation of a batch of query vectors\<close>

lemma parse_no_search:
  "p_parse_neighbors_query self qry st = (r, st1) \<Longrightarrow>
   filter is_search (calls st1) = filter is_search (calls st)"
  by (auto simp: p_parse_neighbors_query_def p_get_embeddings_def remote_query_def
        log_record_def issue_def bindE_def is_search_def split: query.splits option.splits)

lemma mean_axis0_nth:
  "j < shape1 b \<Longrightarrow> mean_axis0 b ! j = sum_list (map (\<lambda>r. r ! j) b) / of_nat (length b)"
  by (simp add: mean_axis0_def)

text \<open>
  Claim C8. With \<^verbatim>\<open>aggregation="mean"\<close> and a resolved query that is a 2-D batch \<open>b\<close>, the
  call issues exactly one search (when the collection exists, so that it can be opened):
  its query vector is \<^verbatim>\<open>b.mean(axis=0)\<close>, the component-wise mean of the rows; the filter
  is the list of live ids and the limit is \<open>k\<close>. The hits of that one search are returned
  as flat lists, with the scores when \<^verbatim>\<open>return_dists\<close>. Resolving the query issues no
  search.
\<close>

theorem kneighbors_mean_of_batch:
  assumes "kk \<le> 16384"
    and "p_parse_neighbors_query self qry st = (Inr (Arr2 b), st')"
    and "collection st' = Some c"
  shows "snd (p_kneighbors srch self (Some qry) (Some kk) False (Some ''mean'') return_dists st)
           = issue (Search (mean_axis0 b)
                      (if patches_field (idx_config self) \<noteq> None then current_label_ids self
                       else current_sample_ids self) kk) st'
         \<and> fst (p_kneighbors srch self (Some qry) (Some kk) False (Some ''mean'') return_dists st)
           = (case srch c (mean_axis0 b)
                     (if patches_field (idx_config self) \<noteq> None then current_label_ids self
                      else current_sample_ids self) kk of
                Inl e \<Rightarrow> Inl e
              | Inr hits \<Rightarrow>
                  Inr (if return_dists then IdsDists (Flat (map fst hits)) (Flat (map snd hits))
                       else Ids (Flat (map fst hits))))
         \<and> filter is_search
              (calls (snd (p_kneighbors srch self (Some qry) (Some kk) False (Some ''mean'')
                             return_dists st)))
           = filter is_search (calls st)
               @ [Search (mean_axis0 b)
                    (if patches_field (idx_config self) \<noteq> None then current_label_ids self
                     else current_sample_ids self) kk]
         \<and> (\<forall>j < shape1 b.
               mean_axis0 b ! j = sum_list (map (\<lambda>r. r ! j) b) / of_nat (length b))"
  using assms parse_no_search[OF assms(2)]
  by (auto simp: p_kneighbors_def max_k_def bindE_Inl bindE_Inr ndim_def query_vectors_def
        remote_search_def issue_def finish_neighbors_def item0_def is_search_def mean_axis0_nth
        split: sum.splits)

theorem kneighbors_mean_of_batch_witness:
  "(3::int) \<le> 16384
   \<and> p_parse_neighbors_query sample_index (QNum (Arr2 [[1, 0], [0, 1]])) store_x
       = (Inr (Arr2 [[1, 0], [0, 1]]), store_x)
   \<and> collection store_x = Some \<lparr> vdim = 2, rows = [\<lparr> pk = ''x'', vector = [1, 0], sample_id = ''x'' \<rparr>] \<rparr>
   \<and> p_kneighbors example_search sample_index (Some (QNum (Arr2 [[1, 0], [0, 1]]))) (Some 3) False
         (Some ''mean'') True store_x
       = (Inr (IdsDists (Flat [''x'']) (Flat [0])), issue (Search [1 / 2, 1 / 2] [''x''] 3) store_x)"
  using kneighbors_mean_of_batch
          [where kk = 3 and self = sample_index and qry = "QNum (Arr2 [[1, 0], [0, 1]])"
             and st = store_x and st' = store_x and b = "[[1, 0], [0, 1]]"
             and srch = example_search and return_dists = True
             and c = "\<lparr> vdim = 2, rows = [\<lparr> pk = ''x'', vector = [1, 0], sample_id = ''x'' \<rparr>] \<rparr>"]
  by (simp add: store_x_def p_parse_neighbors_query_def sample_index_def example_config_def
        example_search_def mean_axis0_def shape1_def prod_eq_iff upt_conv_Cons)

subsection \<open>Existing ids that are not allowed\<close>

lemma get_existing_ids_Some:
  assumes "collection st = Some c"
  shows "get_existing_ids ids st
           = (Inr (remdups (filter (\<lambda>i. i \<in> pk ` set (rows c)) ids)), issue (Query ids []) st)"
proof -
  have "filter (\<lambda>i. i \<in> set (map pk (filter (\<lambda>r. pk r \<in> set ids) (rows c)))) ids
          = filter (\<lambda>i. i \<in> pk ` set (rows c)) ids"
    by (rule filter_cong) auto
  then show ?thesis
    using assms by (simp add: get_existing_ids_def remote_query_def bindE_Inr)
qed

lemma set_existing:
  "set (remdups (filter (\<lambda>i. i \<in> pk ` set rs) ids)) = set ids \<inter> pk ` set rs"
  by auto

text \<open>
  Claim C7. With \<^verbatim>\<open>allow_existing=False\<close>, when at least one of the effective ids (the
  label ids when given, the sample ids otherwise) is a primary key of the collection,
  \<^verbatim>\<open>add_to_index\<close> fails with the \<^verbatim>\<open>ValueError\<close> "Found %d IDs (eg %s) that already exist in
  the index", which reports the number of existing ids and one of them. The state it
  leaves differs from the initial one by the query for the existing ids only: no delete
  and no insert has been issued, and the collection is unchanged.
\<close>

theorem add_to_index_existing_disallowed:
  assumes "collection st = Some c"
    and "set (case label_ids of Some l \<Rightarrow> l | None \<Rightarrow> sample_ids) \<inter> pk ` set (rows c) \<noteq> {}"
  shows "\<exists>ex. ex \<in> set (case label_ids of Some l \<Rightarrow> l | None \<Rightarrow> sample_ids) \<inter> pk ` set (rows c)
           \<and> add_to_index embeddings sample_ids label_ids overwrite False warn_existing batch_size st
               = (Inl (ValueError
                    (FoundExisting
                       (card (set (case label_ids of Some l \<Rightarrow> l | None \<Rightarrow> sample_ids)
                              \<inter> pk ` set (rows c))) ex)),
                  issue (Query (case label_ids of Some l \<Rightarrow> l | None \<Rightarrow> sample_ids) []) st)
           \<and> collection (issue (Query (case label_ids of Some l \<Rightarrow> l | None \<Rightarrow> sample_ids) []) st)
               = collection st
           \<and> calls (issue (Query (case label_ids of Some l \<Rightarrow> l | None \<Rightarrow> sample_ids) []) st)
               = calls st @ [Query (case label_ids of Some l \<Rightarrow> l | None \<Rightarrow> sample_ids) []]
           \<and> filter is_delete
                 (calls (issue (Query (case label_ids of Some l \<Rightarrow> l | None \<Rightarrow> sample_ids) []) st))
               = filter is_delete (calls st)
           \<and> filter is_insert
                 (calls (issue (Query (case label_ids of Some l \<Rightarrow> l | None \<Rightarrow> sample_ids) []) st))
               = filter is_insert (calls st)"
proof -
  define ids where "ids = (case label_ids of Some l \<Rightarrow> l | None \<Rightarrow> sample_ids)"
  define ex_ids where "ex_ids = remdups (filter (\<lambda>i. i \<in> pk ` set (rows c)) ids)"
  have s: "set ex_ids = set ids \<inter> pk ` set (rows c)"
    unfolding ex_ids_def by (rule set_existing)
  with assms(2) have ne: "ex_ids \<noteq> []"
    unfolding ids_def by auto
  have len: "length ex_ids = card (set ids \<inter> pk ` set (rows c))"
    unfolding s [symmetric] ex_ids_def by (simp add: length_remdups_card_conv)
  from ne have hd_in: "hd ex_ids \<in> set ids \<inter> pk ` set (rows c)"
    unfolding s [symmetric] by simp
  have "add_to_index embeddings sample_ids label_ids overwrite False warn_existing batch_size st
          = (Inl (ValueError (FoundExisting (length ex_ids) (hd ex_ids))), issue (Query ids []) st)"
    using assms(1) ne
    by (simp add: add_to_index_def has_collection_def bindE_Inl bindE_Inr
          get_existing_ids_Some ids_def [symmetric] ex_ids_def [symmetric])
  with len hd_in show ?thesis
    unfolding ids_def by (auto simp: issue_def is_delete_def is_insert_def)
qed

theorem add_to_index_existing_disallowed_witness:
  "collection store_x = Some \<lparr> vdim = 2, rows = [\<lparr> pk = ''x'', vector = [1, 0], sample_id = ''x'' \<rparr>] \<rparr>
   \<and> set [''x'', ''b''] \<inter> pk ` set (rows \<lparr> vdim = 2, rows = [\<lparr> pk = ''x'', vector = [1, 0], sample_id = ''x'' \<rparr>] \<rparr>) \<noteq> {}
   \<and> add_to_index [[0, 1], [3, 4]] [''x'', ''b''] None True False False 100 store_x
       = (Inl (ValueError (FoundExisting 1 ''x'')), issue (Query [''x'', ''b''] []) store_x)"
  using add_to_index_existing_disallowed
          [where st = store_x and sample_ids = "[''x'', ''b'']" and label_ids = None
             and embeddings = "[[0, 1], [3, 4]]" and overwrite = True and warn_existing = False
             and batch_size = 100
             and c = "\<lparr> vdim = 2, rows = [\<lparr> pk = ''x'', vector = [1, 0], sample_id = ''x'' \<rparr>] \<rparr>"]
  by (simp add: store_x_def add_to_index_def has_collection_def bindE_Inl bindE_Inr
        get_existing_ids_def remote_query_def issue_def Let_def)

subsection \<open>Overwriting with the default arguments\<close>

lemma iter_batches_single:
  "xs \<noteq> [] \<Longrightarrow> length xs \<le> n \<Longrightarrow> iter_batches xs n = [xs]"
  by (subst iter_batches.simps, subst iter_batches.simps) (cases xs; auto)

text \<open>
  Claim C1 (what the code does). With \<^verbatim>\<open>overwrite=True\<close>, \<^verbatim>\<open>allow_existing=True\<close> and
  \<^verbatim>\<open>warn_existing=False\<close> the test \<^verbatim>\<open>warn_existing or not allow_existing or not overwrite\<close>
  is false, so the existing ids are not queried, \<^verbatim>\<open>existing_ids\<close> is the empty set and the
  branch \<^verbatim>\<open>elif existing_ids and overwrite: self._delete_ids(existing_ids)\<close> is not taken:
  adding one vector under an id issues the insert alone, no query and no delete, and
  every row the collection held is still there, one of the same id included.
\<close>

theorem add_to_index_default_keeps_existing:
  assumes "collection st = Some c" and "length v = vdim c" and "0 < batch_size"
  shows "add_to_index [v] [i] None True True False batch_size st
           = (Inr (),
              st\<lparr>collection := Some (c\<lparr>rows := rows c @ [\<lparr> pk = i, vector = v, sample_id = i \<rparr>]\<rparr>),
                 calls := calls st @ [Insert [i] [Row v] [i]]\<rparr>)"
  using assms
  by (simp add: add_to_index_def has_collection_def bindE_Inl bindE_Inr tolist_each_def
        iter_batches_single remote_insert_def insert_ok_def is_vector_cell_def new_row_def
        issue_def Suc_leI)

theorem add_to_index_default_keeps_existing_witness:
  "collection store_x = Some \<lparr> vdim = 2, rows = [\<lparr> pk = ''x'', vector = [1, 0], sample_id = ''x'' \<rparr>] \<rparr>
   \<and> length [0, 1 :: real] = vdim \<lparr> vdim = 2, rows = [\<lparr> pk = ''x'', vector = [1, 0], sample_id = ''x'' \<rparr>] \<rparr>
   \<and> (0::nat) < 100
   \<and> add_to_index [[0, 1]] [''x''] None True True False 100 store_x
       = (Inr (),
          \<lparr> collection = Some \<lparr> vdim = 2,
               rows = [\<lparr> pk = ''x'', vector = [1, 0], sample_id = ''x'' \<rparr>,
                       \<lparr> pk = ''x'', vector = [0, 1], sample_id = ''x'' \<rparr>] \<rparr>,
            calls = [Insert [''x''] [Row [0, 1]] [''x'']], logged = [] \<rparr>)"
  using add_to_index_default_keeps_existing
          [where st = store_x and v = "[0, 1]" and i = "''x''" and batch_size = 100
             and c = "\<lparr> vdim = 2, rows = [\<lparr> pk = ''x'', vector = [1, 0], sample_id = ''x'' \<rparr>] \<rparr>"]
  by (simp add: store_x_def)

text \<open>The same call with \<^verbatim>\<open>warn_existing=True\<close> does query, delete and then insert.\<close>

lemma add_to_index_warn_overwrite_example:
  "add_to_index [[0, 1]] [''x''] None True True True 100 store_x
     = (Inr (),
        \<lparr> collection = Some \<lparr> vdim = 2,
             rows = [\<lparr> pk = ''x'', vector = [0, 1], sample_id = ''x'' \<rparr>] \<rparr>,
          calls = [Query [''x''] [], Delete [''x''], Insert [''x''] [Row [0, 1]] [''x'']],
          logged = [WarnOverwriting 1] \<rparr>)"
  by (simp add: store_x_def add_to_index_def has_collection_def bindE_Inl bindE_Inr
        get_existing_ids_def remote_query_def remote_delete_def remote_insert_def issue_def
        log_record_def p_delete_ids_def tolist_each_def iter_batches_single insert_ok_def
        is_vector_cell_def new_row_def Let_def)

subsection \<open>Removing ids that are not in the index\<close>

lemma no_missing:
  "filter (\<lambda>i. i \<notin> set ids) (remdups (filter P ids)) = []"
  by (simp add: filter_empty_conv)

text \<open>
  Claim C2 (what the code does). With \<^verbatim>\<open>allow_missing=False\<close>, \<^verbatim>\<open>remove_from_index\<close>
  computes \<^verbatim>\<open>missing_ids = set(existing_ids) - set(ids)\<close>, the existing ids that were not
  requested, and the existing ids are among the requested ones: the set is empty whatever
  the collection holds. So the call raises nothing, also when a requested id is not in the
  collection: it queries, then issues the delete for all the requested ids.
\<close>

theorem remove_from_index_missing_not_reported:
  assumes "collection st = Some c"
  shows "remove_from_index (Some ids) None False warn_missing st
           = (Inr (),
              st\<lparr>collection := Some (c\<lparr>rows := filter (\<lambda>r. pk r \<notin> set ids) (rows c)\<rparr>),
                 calls := calls st @ [Query ids [], Delete ids]\<rparr>)"
  using assms
  by (simp add: remove_from_index_def get_existing_ids_def remote_query_def bindE_Inr
        no_missing p_delete_ids_def remote_delete_def issue_def)

theorem remove_from_index_missing_not_reported_witness:
  "collection store_x = Some \<lparr> vdim = 2, rows = [\<lparr> pk = ''x'', vector = [1, 0], sample_id = ''x'' \<rparr>] \<rparr>
   \<and> ''zz'' \<notin> pk ` set (rows \<lparr> vdim = 2, rows = [\<lparr> pk = ''x'', vector = [1, 0], sample_id = ''x'' \<rparr>] \<rparr>)
   \<and> remove_from_index (Some [''zz'']) None False False store_x
       = (Inr (),
          \<lparr> collection = Some \<lparr> vdim = 2,
               rows = [\<lparr> pk = ''x'', vector = [1, 0], sample_id = ''x'' \<rparr>] \<rparr>,
            calls = [Query [''zz''] [], Delete [''zz'']], logged = [] \<rparr>)"
  using remove_from_index_missing_not_reported
          [where st = store_x and ids = "[''zz'']" and warn_missing = False
             and c = "\<lparr> vdim = 2, rows = [\<lparr> pk = ''x'', vector = [1, 0], sample_id = ''x'' \<rparr>] \<rparr>"]
  by (simp add: store_x_def)

text \<open>No argument makes \<^verbatim>\<open>remove_from_index\<close> end in a \<^verbatim>\<open>ValueError\<close>.\<close>

lemma remove_from_index_no_ValueError:
  "fst (remove_from_index sample_ids label_ids allow_missing warn_missing st) \<noteq> Inl (ValueError m)"
  by (auto simp: remove_from_index_def bindE_def get_existing_ids_def remote_query_def
        p_delete_ids_def remote_delete_def Let_def split: option.splits prod.splits sum.splits if_splits)

subsection \<open>Skipping existing ids\<close>

text \<open>
  Claim C3 (what the code does). With \<^verbatim>\<open>overwrite=False\<close> and two rows of which the first
  id exists, \<^verbatim>\<open>np.delete(embeddings, del_inds)\<close> has no \<^verbatim>\<open>axis\<close>: it flattens the 2-D array
  and removes the number at position 0, not the row; \<^verbatim>\<open>sample_ids\<close> loses its entry 0; and
  \<^verbatim>\<open>ids\<close>, bound before, keeps both ids. The one insert issued has the two ids as primary
  keys, three numbers as vectors and one sample id: the existing id is not left out, and
  the columns do not fit, so the service rejects the insert and the new row is not stored.
\<close>

theorem add_to_index_skip_flattens:
  assumes "collection st = Some c" and "a \<in> pk ` set (rows c)" and "b \<notin> pk ` set (rows c)"
  shows "add_to_index [[xa, xb], [ya, yb]] [a, b] None False True False 100 st
           = (Inl MilvusException,
              st\<lparr>calls := calls st @ [Query [a, b] [],
                                       Insert [a, b] [Scalar xb, Scalar ya, Scalar yb] [b]]\<rparr>)"
proof -
  from assms(2,3) have ne: "a \<noteq> b" by auto
  have ex: "get_existing_ids [a, b] st = (Inr [a], issue (Query [a, b] []) st)"
    using assms ne by (simp add: get_existing_ids_Some)
  have di: "del_inds_of [a, b] [a] = [0]"
    using ne by (simp add: del_inds_of_def upt_conv_Cons)
  show ?thesis
    using assms(1) ne
    by (simp add: add_to_index_def has_collection_def bindE_Inl bindE_Inr ex di np_delete_def
          tolist_each_def iter_batches_single remote_insert_def insert_ok_def issue_def
          upt_conv_Cons Let_def)
qed

theorem add_to_index_skip_flattens_witness:
  "collection store_x = Some \<lparr> vdim = 2, rows = [\<lparr> pk = ''x'', vector = [1, 0], sample_id = ''x'' \<rparr>] \<rparr>
   \<and> ''x'' \<in> pk ` set (rows \<lparr> vdim = 2, rows = [\<lparr> pk = ''x'', vector = [1, 0], sample_id = ''x'' \<rparr>] \<rparr>)
   \<and> ''b'' \<notin> pk ` set (rows \<lparr> vdim = 2, rows = [\<lparr> pk = ''x'', vector = [1, 0], sample_id = ''x'' \<rparr>] \<rparr>)
   \<and> add_to_index [[0, 1], [3, 4]] [''x'', ''b''] None False True False 100 store_x
       = (Inl MilvusException,
          \<lparr> collection = Some \<lparr> vdim = 2,
               rows = [\<lparr> pk = ''x'', vector = [1, 0], sample_id = ''x'' \<rparr>] \<rparr>,
            calls = [Query [''x'', ''b''] [],
                     Insert [''x'', ''b''] [Scalar 1, Scalar 3, Scalar 4] [''b'']],
            logged = [] \<rparr>)"
  using add_to_index_skip_flattens
          [where st = store_x and a = "''x''" and b = "''b''" and xa = 0 and xb = 1
             and ya = 3 and yb = 4
             and c = "\<lparr> vdim = 2, rows = [\<lparr> pk = ''x'', vector = [1, 0], sample_id = ''x'' \<rparr>] \<rparr>"]
  by (simp add: store_x_def)

subsection \<open>Retrieval with label ids\<close>

text \<open>The equations that evaluate a retrieval on the example values.\<close>

lemmas retrieval_eval = get_embeddings.simps p_get_patch_embeddings_from_label_ids.simps
  p_get_patch_embeddings_from_sample_ids_def get_dim_def bindE_Inl bindE_Inr max_k_def
  iter_batches.simps remote_search_def p_get_embeddings_def remote_query_def issue_def
  log_record_def set_minus_def Let_def store_p_def patch_index_def example_config_def
  example_search_def

text \<open>
  Claim C4 (what the code does). With a patches field and both \<^verbatim>\<open>sample_ids\<close> and
  \<^verbatim>\<open>label_ids\<close> given, \<^verbatim>\<open>get_embeddings\<close> logs "Ignoring sample IDs when label IDs are
  provided" and then tests \<^verbatim>\<open>sample_ids is not None and self.config.patches_field is not
  None\<close> first: it retrieves by the sample ids (\<^verbatim>\<open>_get_patch_embeddings_from_sample_ids\<close>).
  The result is the one of the call with the same sample ids and no label ids, after the
  warning: the label ids have no part in it.
\<close>

theorem get_embeddings_both_ids_uses_sample_ids:
  assumes "patches_field (idx_config self) \<noteq> None"
  shows "get_embeddings srch self (Some sids) (Some lids) allow_missing warn_missing st
           = get_embeddings srch self (Some sids) None allow_missing warn_missing
               (log_record WarnIgnoringSampleIds st)"
  using assms
  by (cases "patches_field (idx_config self)")
     (simp_all add: get_embeddings.simps [of _ _ "Some sids"])

theorem get_embeddings_both_ids_uses_sample_ids_witness:
  "patches_field (idx_config patch_index) \<noteq> None
   \<and> get_embeddings example_search patch_index (Some [''s1'']) (Some [''p1'']) True False store_p
       = (Inr ([], [], Some []),
          \<lparr> collection = Some \<lparr> vdim = 2,
               rows = [\<lparr> pk = ''p1'', vector = [1, 0], sample_id = ''s1'' \<rparr>] \<rparr>,
            calls = [Search [0, 0] [''s1''] 100, Query [] [''pk'', ''sample_id'', ''vector'']],
            logged = [WarnIgnoringSampleIds, ErrorGetEmbedding ''ClientCollection''] \<rparr>)"
  using get_embeddings_both_ids_uses_sample_ids
          [where self = patch_index and srch = example_search and sids = "[''s1'']"
             and lids = "[''p1'']" and allow_missing = True and warn_missing = False
             and st = store_p]
  by (simp add: retrieval_eval numeral_2_eq_2)

lemma iter_batches_Cons:
  "xs \<noteq> [] \<Longrightarrow> 0 < n \<Longrightarrow> iter_batches xs n = take n xs # iter_batches (drop n xs) n"
  by (subst iter_batches.simps) simp

lemma label_ids_always_error:
  assumes "lids \<noteq> []"
  shows "\<exists>e st'. p_get_patch_embeddings_from_label_ids srch self (Some lids) 1000 st = (Inl e, st')"
  using assms
  by (simp add: p_get_patch_embeddings_from_label_ids.simps iter_batches_Cons
        split: prod.splits sum.splits)

text \<open>
  Claim C5 (what the code does). With a patches field, label ids given and no sample ids,
  \<^verbatim>\<open>_get_patch_embeddings_from_label_ids\<close> does not look the label ids up with
  \<^verbatim>\<open>self._get_embeddings\<close>: it calls the public \<^verbatim>\<open>self.get_embeddings\<close> with the batch
  as sample ids and subscripts the arrays it returns with \<^verbatim>\<open>"vector"\<close>. For every list of
  label ids that is not empty the call ends in an error; it returns no vector, sample id
  or primary key.
\<close>

theorem get_embeddings_label_mode_fails:
  assumes "patches_field (idx_config self) \<noteq> None" and "lids \<noteq> []"
  shows "\<exists>e. fst (get_embeddings srch self None (Some lids) allow_missing warn_missing st) = Inl e"
proof -
  obtain e st' where
    "p_get_patch_embeddings_from_label_ids srch self (Some lids) 1000 st = (Inl e, st')"
    using label_ids_always_error [OF assms(2)] by blast
  then show ?thesis
    using assms(1)
    by (cases "patches_field (idx_config self)") (simp_all add: get_embeddings.simps [of _ _ None])
qed

theorem get_embeddings_label_mode_fails_witness:
  "patches_field (idx_config patch_index) \<noteq> None \<and> [''p1''] \<noteq> []
   \<and> get_embeddings example_search patch_index None (Some [''p1'']) True False store_p
       = (Inl IndexError,
          \<lparr> collection = Some \<lparr> vdim = 2,
               rows = [\<lparr> pk = ''p1'', vector = [1, 0], sample_id = ''s1'' \<rparr>] \<rparr>,
            calls = [Search [0, 0] [''p1''] 100, Query [''p1''] [''pk'', ''sample_id'', ''vector'']],
            logged = [ErrorGetEmbedding ''ClientCollection''] \<rparr>)"
  using get_embeddings_label_mode_fails
          [where self = patch_index and srch = example_search and lids = "[''p1'']"
             and allow_missing = True and warn_missing = False and st = store_p]
  by (simp add: retrieval_eval numeral_2_eq_2)

text \<open>
  Which error: when the collection exists and no search fails, the call made for the first
  batch returns, and the subscript of its result raises \<^verbatim>\<open>IndexError\<close>.
\<close>

lemma patch_batches_ok:
  assumes "collection st = Some c" and "\<And>q ids k. \<exists>h. srch c q ids k = Inr h"
  shows "\<exists>acc' st'. patch_batches srch self qv k bs acc st = (Inr acc', st')
                     \<and> collection st' = Some c"
  using assms(1)
proof (induction bs arbitrary: acc st)
  case Nil
  then show ?case by (intro exI [of _ acc] exI [of _ st]) simp
next
  case (Cons b bs)
  obtain h where h: "srch c qv b k = Inr h"
    using assms(2) by blast
  define st2 where
    "st2 = issue (Query (map fst h) [''pk'', ''sample_id'', ''vector''])
             (log_record (ErrorGetEmbedding (collection_name (idx_config self)))
                (issue (Search qv b k) st))"
  have c2: "collection st2 = Some c"
    using Cons.prems by (simp add: st2_def issue_def log_record_def)
  have "patch_batches srch self qv k (b # bs) acc st
          = patch_batches srch self qv k bs
              (fst acc @ map vector (filter (\<lambda>r. pk r \<in> set (map fst h)) (rows c)),
               fst (snd acc) @ map sample_id (filter (\<lambda>r. pk r \<in> set (map fst h)) (rows c)),
               snd (snd acc) @ map pk (filter (\<lambda>r. pk r \<in> set (map fst h)) (rows c))) st2"
    using Cons.prems h
    by (simp add: remote_search_def p_get_embeddings_def remote_query_def st2_def issue_def
          log_record_def)
  with Cons.IH [OF c2] show ?case by simp
qed

lemma get_embeddings_label_mode_IndexError:
  assumes "patches_field (idx_config self) \<noteq> None" and "lids \<noteq> []"
    and "collection st = Some c" and "\<And>q ids k. \<exists>h. srch c q ids k = Inr h"
  shows "fst (get_embeddings srch self None (Some lids) allow_missing warn_missing st)
           = Inl IndexError"
proof -
  obtain pf where pf: "patches_field (idx_config self) = Some pf"
    using assms(1) by auto
  obtain acc' st' where pb:
    "patch_batches srch self (replicate (vdim c) 0) (min 100 (max_k (idx_config self)))
       (iter_batches (take 1000 lids) 100) ([], [], []) st = (Inr acc', st')"
    using patch_batches_ok [of st c srch] assms(3,4) by blast
  have inner: "\<exists>r st''. get_embeddings srch self (Some (take 1000 lids)) None True False st
                 = (Inr r, st'')"
    using pf assms(3) pb
    by (simp add: get_embeddings.simps [of _ _ "Some (take 1000 lids)"]
          p_get_patch_embeddings_from_sample_ids_def get_dim_def bindE_Inr Let_def)
  then obtain r st'' where
    "get_embeddings srch self (Some (take 1000 lids)) None True False st = (Inr r, st'')"
    by blast
  then have "p_get_patch_embeddings_from_label_ids srch self (Some lids) 1000 st
               = (Inl IndexError, st'')"
    using assms(2)
    by (simp add: p_get_patch_embeddings_from_label_ids.simps iter_batches_Cons)
  then show ?thesis
    using pf by (simp add: get_embeddings.simps [of _ _ None])
qed

end
